theory Spec2Isabelle
  imports Main
begin

section \<open>JavaScript values\<close>

text \<open>
  The values a route handler can return, throw or pass to \<open>response.send\<close>.
  The numbers are \<open>JNum n\<close>, the integer \<open>n\<close> (zero of either sign is \<open>JNum 0\<close>;
  beyond the safe integers, the number nearest to \<open>n\<close>), \<open>JFrac m k\<close>, the non-integer
  \<open>m / 2 ^ k\<close>, \<open>JInf\<close>, plus or minus infinity, and \<open>JNaN\<close>.
  An object carries its class and its own data properties: \<open>ErrorObject\<close> is
  \<open>Error\<close> or any subclass other than the framework's \<open>HTTPError\<close>.
\<close>

datatype cls = PlainObject | ErrorObject | HTTPErrorObject

datatype jsval =
    JUndefined
  | JNull
  | JBool bool
  | JNum int
  | JFrac int nat
  | JInf bool
  | JNaN
  | JStr string
  | JFunc
  | JObj cls "(string \<times> jsval) list"

text \<open>\<open>typeof v\<close>\<close>

fun typeof :: "jsval \<Rightarrow> string" where
  "typeof JUndefined = ''undefined''"
| "typeof JNull = ''object''"
| "typeof (JBool b) = ''boolean''"
| "typeof (JNum n) = ''number''"
| "typeof (JFrac m k) = ''number''"
| "typeof (JInf p) = ''number''"
| "typeof JNaN = ''number''"
| "typeof (JStr s) = ''string''"
| "typeof JFunc = ''function''"
| "typeof (JObj c ps) = ''object''"

text \<open>ToBoolean: what \<open>!v\<close>, \<open>v ? a : b\<close> and \<open>v || w\<close> test.\<close>

fun truthy :: "jsval \<Rightarrow> bool" where
  "truthy JUndefined = False"
| "truthy JNull = False"
| "truthy (JBool b) = b"
| "truthy (JNum n) = (n \<noteq> 0)"
| "truthy (JFrac m k) = (m \<noteq> 0)"
| "truthy (JInf p) = True"
| "truthy JNaN = False"
| "truthy (JStr s) = (s \<noteq> [])"
| "truthy JFunc = True"
| "truthy (JObj c ps) = True"

text \<open>\<open>v instanceof Error\<close> and \<open>v instanceof HTTPError\<close>\<close>

fun instanceof_Error :: "jsval \<Rightarrow> bool" where
  "instanceof_Error (JObj ErrorObject ps) = True"
| "instanceof_Error (JObj HTTPErrorObject ps) = True"
| "instanceof_Error v = False"

fun instanceof_HTTPError :: "jsval \<Rightarrow> bool" where
  "instanceof_HTTPError (JObj HTTPErrorObject ps) = True"
| "instanceof_HTTPError v = False"

text \<open>
  Property read \<open>v?.k\<close> for the keys the framework reads (\<open>status\<close>, \<open>code\<close>,
  \<open>reason\<close>, \<open>message\<close>): an own property if there is one; \<open>message\<close> of an error
  without its own is the empty string of \<open>Error.prototype\<close>; anything else, and any
  property of a primitive, is \<open>undefined\<close>.
\<close>

fun get_prop :: "jsval \<Rightarrow> string \<Rightarrow> jsval" where
  "get_prop (JObj c ps) k =
     (case map_of ps k of
        Some v \<Rightarrow> v
      | None \<Rightarrow> (if c \<noteq> PlainObject \<and> k = ''message'' then JStr [] else JUndefined))"
| "get_prop v k = JUndefined"

text \<open>\<open>a ?? b\<close> and \<open>a || b\<close>\<close>

definition nullish :: "jsval \<Rightarrow> jsval \<Rightarrow> jsval" where
  "nullish a b = (if a = JUndefined \<or> a = JNull then b else a)"

definition js_or :: "jsval \<Rightarrow> jsval \<Rightarrow> jsval" where
  "js_or a b = (if truthy a then a else b)"

subsection \<open>Numbers and strings\<close>

fun string_of_nat :: "nat \<Rightarrow> string" where
  "string_of_nat n =
     (if n < 10 then [char_of (48 + n)]
      else string_of_nat (n div 10) @ [char_of (48 + n mod 10)])"

declare string_of_nat.simps [simp del]

definition string_of_int :: "int \<Rightarrow> string" where
  "string_of_int i =
     (if i < 0 then CHR ''-'' # string_of_nat (nat (- i)) else string_of_nat (nat i))"

definition is_digit :: "char \<Rightarrow> bool" where
  "is_digit c = (48 \<le> (of_char c :: nat) \<and> (of_char c :: nat) \<le> 57)"

text \<open>
  White space that \<open>parseInt\<close> skips, among code units below 256: tab, line feed,
  vertical tab, form feed, carriage return, space and no-break space.
\<close>

definition is_space :: "char \<Rightarrow> bool" where
  "is_space c =
     ((of_char c :: nat) = 32 \<or> (of_char c :: nat) = 160
      \<or> (9 \<le> (of_char c :: nat) \<and> (of_char c :: nat) \<le> 13))"

definition digits_value :: "string \<Rightarrow> nat" where
  "digits_value ds = foldl (\<lambda>a c. 10 * a + (of_char c - 48)) 0 ds"

text \<open>
  \<open>parseInt(s, 10)\<close> on a string: skip leading white space, read an optional sign,
  then the longest run of decimal digits; no digit gives NaN.
\<close>

definition parseInt :: "string \<Rightarrow> jsval" where
  "parseInt s =
     (let t = dropWhile is_space s;
          neg = (t \<noteq> [] \<and> hd t = CHR ''-'');
          u = (if t \<noteq> [] \<and> (hd t = CHR ''-'' \<or> hd t = CHR ''+'') then tl t else t);
          z = takeWhile is_digit u
      in if z = [] then JNaN
         else JNum (if neg then - int (digits_value z) else int (digits_value z)))"

section \<open>The runtime the framework runs on\<close>

text \<open>
  Library functions the framework calls and does not define: \<open>Buffer.toString\<close>,
  \<open>JSON.parse\<close> (\<open>Inl\<close> carries the message of the SyntaxError it throws),
  \<open>JSON.stringify\<close> (\<open>Inl\<close> is the error it throws, \<open>Inr\<close> the string or
  \<open>undefined\<close> it returns), \<open>querystring.parse\<close>, the conversion of an object to a
  string, the conversion to a string of a number that is not a safe integer, and whether
  \<open>process.env.NODE_ENV\<close> is \<open>development\<close>.
\<close>

record runtime =
  buffer_toString :: "string \<Rightarrow> string"
  JSON_parse :: "string \<Rightarrow> string + jsval"
  JSON_stringify :: "jsval \<Rightarrow> jsval + jsval"
  parseQueryString :: "string \<Rightarrow> jsval"
  object_toString :: "jsval \<Rightarrow> string"
  number_toString :: "jsval \<Rightarrow> string"
  development :: bool

text \<open>
  ToString, as a template literal and string concatenation apply it. An integer prints
  as its plain decimal expansion up to \<open>Number.MAX_SAFE_INTEGER = 2^53 - 1\<close> in
  magnitude; beyond that, and for a non-integer, the digits are the runtime's (rounded,
  and in exponent form from \<open>1e21\<close> on).
\<close>

fun ToString :: "runtime \<Rightarrow> jsval \<Rightarrow> string" where
  "ToString rt JUndefined = ''undefined''"
| "ToString rt JNull = ''null''"
| "ToString rt (JBool b) = (if b then ''true'' else ''false'')"
| "ToString rt (JNum n) =
     (if \<bar>n\<bar> \<le> 9007199254740991 then string_of_int n else number_toString rt (JNum n))"
| "ToString rt (JFrac m k) = number_toString rt (JFrac m k)"
| "ToString rt (JInf p) = (if p then ''Infinity'' else ''-Infinity'')"
| "ToString rt JNaN = ''NaN''"
| "ToString rt (JStr s) = s"
| "ToString rt JFunc = object_toString rt JFunc"
| "ToString rt (JObj c ps) = object_toString rt (JObj c ps)"

text \<open>\<open>new Error(message)\<close>\<close>

definition new_Error :: "string \<Rightarrow> jsval" where
  "new_Error message = JObj ErrorObject [(''message'', JStr message)]"

section \<open>Body decoder: \<open>App.parse\<close>\<close>

text \<open>The classified content type; \<open>None\<close> is the parser's \<open>null\<close>.\<close>

record content_type =
  type :: string
  subtype :: string

text \<open>
  How a statement completes: it runs to its end (and control goes on to the next
  statement), it returns a value, or it throws.
\<close>

datatype completion = Normal | Return jsval | Throw jsval

text \<open>Statements in sequence: the second runs only when the first completes normally.\<close>

definition seq :: "completion \<Rightarrow> completion \<Rightarrow> completion" where
  "seq c d = (case c of Normal \<Rightarrow> d | Return v \<Rightarrow> Return v | Throw e \<Rightarrow> Throw e)"

text \<open>
  The three \<open>case\<close> bodies of the outer \<open>switch\<close>. Each is an inner \<open>switch\<close> on the
  subtype whose \<open>break\<close> leaves the inner \<open>switch\<close> only.
\<close>

definition case_text :: "runtime \<Rightarrow> content_type \<Rightarrow> string \<Rightarrow> completion" where
  "case_text rt contentType buffer =
     (if subtype contentType = ''plain'' then Return (JStr (buffer_toString rt buffer))
      else if subtype contentType = ''html'' then Return (JStr (buffer_toString rt buffer))
      else Normal)"

definition case_application :: "runtime \<Rightarrow> content_type \<Rightarrow> string \<Rightarrow> completion" where
  "case_application rt contentType buffer =
     (if subtype contentType = ''javascript'' then Normal
      else if subtype contentType = ''json'' then
        (case JSON_parse rt (buffer_toString rt buffer) of
           Inl msg \<Rightarrow> Throw (new_Error msg)
         | Inr v \<Rightarrow> Return v)
      else if subtype contentType = ''xml'' then Normal
      else if subtype contentType = ''x-www-form-urlencoded'' then
        Return (parseQueryString rt (buffer_toString rt buffer))
      else Normal)"

definition case_multipart :: "runtime \<Rightarrow> content_type \<Rightarrow> string \<Rightarrow> completion" where
  "case_multipart rt contentType buffer =
     (if subtype contentType = ''form-data'' then Normal else Normal)"

text \<open>
  The outer \<open>switch\<close>: control enters at the matching label and runs the case bodies
  from there on in source order, since no \<open>break\<close> or \<open>return\<close> of the outer
  \<open>switch\<close> separates them.
\<close>

definition parse_switch :: "runtime \<Rightarrow> content_type \<Rightarrow> string \<Rightarrow> completion" where
  "parse_switch rt contentType buffer =
     (if type contentType = ''text'' then
        seq (case_text rt contentType buffer)
          (seq (case_application rt contentType buffer)
            (seq (case_multipart rt contentType buffer) Normal))
      else if type contentType = ''application'' then
        seq (case_application rt contentType buffer)
          (seq (case_multipart rt contentType buffer) Normal)
      else if type contentType = ''multipart'' then
        seq (case_multipart rt contentType buffer) Normal
      else Normal)"

definition invalid_content_type :: "string \<Rightarrow> jsval" where
  "invalid_content_type name =
     new_Error (''Invalid content-type '' @ [CHR 0x22] @ name @ [CHR 0x22] @ ''.'')"

text \<open>
  \<open>parse\<close> gives the lines written with \<open>console.warn\<close> and the result: \<open>Inl\<close> the
  error thrown, \<open>Inr\<close> the value returned. The \<open>catch\<close> around the \<open>switch\<close> turns
  anything thrown inside it into a plain \<open>return\<close>.
\<close>

definition parse :: "runtime \<Rightarrow> content_type option \<Rightarrow> string \<Rightarrow> string list \<times> (jsval + jsval)" where
  "parse rt contentType buffer =
     (case contentType of
        None \<Rightarrow> ([], Inl (invalid_content_type ''null''))
      | Some ct \<Rightarrow>
         (case parse_switch rt ct buffer of
            Return v \<Rightarrow> ([], Inr v)
          | Throw error \<Rightarrow>
              (if development rt
               then [''Failed parsing body with '' @ [CHR 0x22]
                       @ ToString rt (get_prop error ''message'') @ [CHR 0x22]]
               else [],
               Inr JUndefined)
          | Normal \<Rightarrow> ([], Inl (invalid_content_type (type ct @ ''/'' @ subtype ct)))))"

subsection \<open>The \<open>body()\<close> accessor\<close>

datatype promise = Pending | Resolved jsval | Rejected jsval

text \<open>Settling a promise a second time changes nothing.\<close>

definition settle :: "promise \<Rightarrow> promise \<Rightarrow> promise" where
  "settle p q = (if p = Pending then q else p)"

record body_reader =
  buffer :: "string option"
  outcome :: promise
  console :: "string list"

text \<open>The \<open>onData\<close> callback, called with each chunk and whether it is the last.\<close>

definition onData :: "runtime \<Rightarrow> content_type option \<Rightarrow> string \<times> bool \<Rightarrow> body_reader \<Rightarrow> body_reader" where
  "onData rt contentType ev r =
     (let curBuf = fst ev;
          isLast = snd ev;
          buf = (case buffer r of Some b \<Rightarrow> b @ curBuf | None \<Rightarrow> curBuf);
          r1 = r\<lparr>buffer := Some buf\<rparr>
      in if isLast then
           (case parse rt contentType buf of
              (warnings, Inr v) \<Rightarrow>
                r1\<lparr>outcome := settle (outcome r1) (Resolved v), console := console r1 @ warnings\<rparr>
            | (warnings, Inl error) \<Rightarrow>
                r1\<lparr>outcome := settle (outcome r1) (Rejected error), console := console r1 @ warnings\<rparr>)
         else r1)"

definition body :: "runtime \<Rightarrow> content_type option \<Rightarrow> (string \<times> bool) list \<Rightarrow> body_reader" where
  "body rt contentType chunks =
     fold (onData rt contentType) chunks \<lparr>buffer = None, outcome = Pending, console = []\<rparr>"

section \<open>The response guard\<close>

text \<open>Calls made on the transport's response object, in order.\<close>

datatype call = WriteStatus string | WriteHeader string string | End jsval

text \<open>
  The transport's response object of one handler invocation: the four flags the framework
  keeps on it, the calls made on it, and the request's yield flag set by \<open>next()\<close>.
\<close>

record response =
  aborted :: bool
  done' :: bool
  calledNext :: bool
  calledSend :: bool
  written :: "call list"
  yield :: bool

definition fresh :: response where
  "fresh = \<lparr>aborted = False, done' = False, calledNext = False, calledSend = False,
            written = [], yield = False\<rparr>"

definition isJSON :: "runtime \<Rightarrow> jsval \<Rightarrow> bool" where
  "isJSON rt obj = (case JSON_stringify rt obj of Inl e \<Rightarrow> False | Inr s \<Rightarrow> True)"

text \<open>
  \<open>res.writeStatus('200 OK').writeHeader('Content-Type', 'application/json')
  .end(JSON.stringify(b))\<close>: the status and the header are written before the argument of
  \<open>end\<close> is evaluated, so an error thrown by \<open>JSON.stringify\<close> leaves them written.
  The first component is the error thrown, if any.
\<close>

definition write_json :: "runtime \<Rightarrow> jsval \<Rightarrow> response \<Rightarrow> jsval option \<times> response" where
  "write_json rt b res =
     (let res1 = res\<lparr>written := written res
                   @ [WriteStatus ''200 OK'', WriteHeader ''Content-Type'' ''application/json'']\<rparr>
      in case JSON_stringify rt b of
           Inl e \<Rightarrow> (Some e, res1)
         | Inr s \<Rightarrow> (None, res1\<lparr>written := written res1 @ [End s]\<rparr>))"

text \<open>\<open>response.send\<close>, fuller variant. \<open>res.cork\<close> runs its callback at once.\<close>

definition send_full :: "runtime \<Rightarrow> jsval \<Rightarrow> response \<Rightarrow> jsval option \<times> response" where
  "send_full rt b res =
     (if aborted res then (None, res)
      else if done' res then (None, res)
      else if calledNext res then (None, res)
      else
        let res1 = res\<lparr>calledSend := True\<rparr> in
        if typeof b = ''string'' \<or> typeof b = ''number'' then
          (None, res1\<lparr>done' := True, written := written res1 @ [WriteStatus ''200 OK'', End b]\<rparr>)
        else if isJSON rt b then write_json rt b (res1\<lparr>done' := True\<rparr>)
        else (None, res1))"

text \<open>\<open>response.send\<close>, minimal variant.\<close>

definition send_min :: "runtime \<Rightarrow> jsval \<Rightarrow> response \<Rightarrow> jsval option \<times> response" where
  "send_min rt b res =
     (if aborted res then (None, res)
      else if done' res then (None, res)
      else if calledNext res then (None, res)
      else
        let res1 = res\<lparr>calledSend := True\<rparr> in
        if typeof b = ''string'' then
          (None, res1\<lparr>done' := True, written := written res1 @ [WriteStatus ''200 OK'', End b]\<rparr>)
        else if typeof b = ''object'' then write_json rt b (res1\<lparr>done' := True\<rparr>)
        else (None, res1))"

text \<open>\<open>next\<close>\<close>

definition "next" :: "response \<Rightarrow> response" where
  "next res = res\<lparr>calledNext := True, yield := True\<rparr>"

text \<open>The callback given to \<open>res.onAborted\<close>.\<close>

definition onAborted :: "response \<Rightarrow> response" where
  "onAborted res = res\<lparr>aborted := True\<rparr>"

section \<open>The dispatch pipeline: \<open>App.handle\<close>\<close>

text \<open>
  \<open>new HTTPError(code, message)\<close>, with a number as \<open>code\<close>: \<open>super(message)\<close>
  gives the object its own \<open>message\<close> only when one is passed. The class is not
  exported: the only \<open>HTTPError\<close> ever made is the one the pipeline throws itself.
\<close>

definition new_HTTPError :: "jsval \<Rightarrow> string option \<Rightarrow> jsval" where
  "new_HTTPError code message =
     JObj HTTPErrorObject
       ((case message of None \<Rightarrow> [] | Some m \<Rightarrow> [(''message'', JStr m)]) @ [(''code'', code)])"

text \<open>What the handler's promise settles to, if it ever does.\<close>

datatype settled = Returns jsval | Throws jsval | Hangs

subsection \<open>Fuller variant\<close>

text \<open>
  The \<open>try\<close> block after the \<open>await\<close>: the error it throws, if any, and the response.
\<close>

definition try_full :: "runtime \<Rightarrow> jsval \<Rightarrow> response \<Rightarrow> jsval option \<times> response" where
  "try_full rt b res =
     (if calledSend res then (None, res)
      else if \<not> truthy b then (Some (new_HTTPError (JNum 204) (Some ''No Content'')), res)
      else if instanceof_Error b then (Some b, res)
      else send_full rt b res)"

text \<open>The text written as status line and body for an error.\<close>

definition error_message_full :: "runtime \<Rightarrow> jsval \<Rightarrow> string" where
  "error_message_full rt error =
     (if instanceof_HTTPError error then
        ToString rt (get_prop error ''code'') @ '' '' @ ToString rt (get_prop error ''message'')
      else
        let status = parseInt (ToString rt
              (nullish (nullish (get_prop error ''status'') (get_prop error ''code'')) (JStr ''500'')));
            reason = js_or (js_or (get_prop error ''reason'') (get_prop error ''message''))
              (if status = JNum 500 then JStr ''Internal Server Error'' else JStr []) in
        ToString rt status @ (if truthy reason then '' '' @ ToString rt reason else []))"

text \<open>The \<open>catch\<close> block.\<close>

definition catch_full :: "runtime \<Rightarrow> jsval \<Rightarrow> response \<Rightarrow> response" where
  "catch_full rt error res =
     (if aborted res then res
      else if done' res then res
      else if calledNext res then res
      else
        let res1 = res\<lparr>done' := True\<rparr>;
            message = error_message_full rt error in
        res1\<lparr>written := written res1 @ [WriteStatus message, End (JStr message)]\<rparr>)"

text \<open>Everything after the \<open>await\<close>, given what the handler settled to.\<close>

definition after_await_full :: "runtime \<Rightarrow> settled \<Rightarrow> response \<Rightarrow> response" where
  "after_await_full rt s res =
     (case s of
        Hangs \<Rightarrow> res
      | Throws error \<Rightarrow> catch_full rt error res
      | Returns b \<Rightarrow>
          (case try_full rt b res of
             (None, res1) \<Rightarrow> res1
           | (Some error, res1) \<Rightarrow> catch_full rt error res1))"

subsection \<open>Minimal variant\<close>

definition try_min :: "runtime \<Rightarrow> jsval \<Rightarrow> response \<Rightarrow> jsval option \<times> response" where
  "try_min rt b res =
     (if calledSend res then (None, res)
      else if \<not> truthy b then (None, res)
      else if instanceof_Error b then (Some b, res)
      else send_min rt b res)"

definition error_message_min :: "runtime \<Rightarrow> jsval \<Rightarrow> string" where
  "error_message_min rt error =
     (let status = parseInt (ToString rt (nullish (get_prop error ''status'') (JStr ''500'')));
          reason = js_or (js_or (get_prop error ''reason'') (get_prop error ''message''))
            (if status = JNum 500 then JStr ''Internal Server Error'' else JStr []) in
      ToString rt status @ (if truthy reason then '' '' @ ToString rt reason else []))"

definition catch_min :: "runtime \<Rightarrow> jsval \<Rightarrow> response \<Rightarrow> response" where
  "catch_min rt error res =
     (if aborted res then res
      else if done' res then res
      else if calledNext res then res
      else
        let res1 = res\<lparr>done' := True\<rparr>;
            message = error_message_min rt error in
        res1\<lparr>written := written res1 @ [WriteStatus message, End (JStr message)]\<rparr>)"

definition after_await_min :: "runtime \<Rightarrow> settled \<Rightarrow> response \<Rightarrow> response" where
  "after_await_min rt s res =
     (case s of
        Hangs \<Rightarrow> res
      | Throws error \<Rightarrow> catch_min rt error res
      | Returns b \<Rightarrow>
          (case try_min rt b res of
             (None, res1) \<Rightarrow> res1
           | (Some error, res1) \<Rightarrow> catch_min rt error res1))"

subsection \<open>Handlers\<close>

text \<open>
  What one invocation of a route handler does to the response, as the pipeline sees it:
  the calls it makes (\<open>response.send(b)\<close>, either letting an error thrown by it escape or
  catching it, and \<open>next()\<close>) interleaved with the transport reporting an abort, before
  its promise settles; what the promise settles to; and the calls and aborts that come
  after the pipeline has dealt with that (from timers and other callbacks the handler
  left behind).
\<close>

datatype event = Send jsval | SendCaught jsval | Next | Abort

record handler =
  before :: "event list"
  settles :: settled
  later :: "event list"

text \<open>
  Events inside the handler: an error escaping from \<open>send\<close> ends the handler, which then
  throws that error.
\<close>

fun run_events :: "(jsval \<Rightarrow> response \<Rightarrow> jsval option \<times> response) \<Rightarrow> event list \<Rightarrow> response
    \<Rightarrow> jsval option \<times> response" where
  "run_events sendf [] res = (None, res)"
| "run_events sendf (Send b # es) res =
     (case sendf b res of
        (Some error, res1) \<Rightarrow> (Some error, res1)
      | (None, res1) \<Rightarrow> run_events sendf es res1)"
| "run_events sendf (SendCaught b # es) res = run_events sendf es (snd (sendf b res))"
| "run_events sendf (Next # es) res = run_events sendf es (next res)"
| "run_events sendf (Abort # es) res = run_events sendf es (onAborted res)"

text \<open>Events after the pipeline has finished: each is a callback of its own.\<close>

definition run_later :: "(jsval \<Rightarrow> response \<Rightarrow> jsval option \<times> response) \<Rightarrow> event list \<Rightarrow> response
    \<Rightarrow> response" where
  "run_later sendf es res = fold (\<lambda>e r. snd (run_events sendf [e] r)) es res"

text \<open>The callback registered with the transport, run on a response in any state.\<close>

definition run_full :: "runtime \<Rightarrow> handler \<Rightarrow> response \<Rightarrow> response" where
  "run_full rt h res =
     (case run_events (send_full rt) (before h) res of
        (Some error, res1) \<Rightarrow> run_later (send_full rt) (later h) (after_await_full rt (Throws error) res1)
      | (None, res1) \<Rightarrow> run_later (send_full rt) (later h) (after_await_full rt (settles h) res1))"

definition run_min :: "runtime \<Rightarrow> handler \<Rightarrow> response \<Rightarrow> response" where
  "run_min rt h res =
     (case run_events (send_min rt) (before h) res of
        (Some error, res1) \<Rightarrow> run_later (send_min rt) (later h) (after_await_min rt (Throws error) res1)
      | (None, res1) \<Rightarrow> run_later (send_min rt) (later h) (after_await_min rt (settles h) res1))"

text \<open>A request dispatched to a handler starts with no flag set and nothing written.\<close>

definition dispatch_full :: "runtime \<Rightarrow> handler \<Rightarrow> response" where
  "dispatch_full rt h = run_full rt h fresh"

definition dispatch_min :: "runtime \<Rightarrow> handler \<Rightarrow> response" where
  "dispatch_min rt h = run_min rt h fresh"

text \<open>The number of \<open>end\<close> calls among the calls made on a response.\<close>

fun is_End :: "call \<Rightarrow> bool" where
  "is_End (End b) = True"
| "is_End c = False"

definition ends :: "call list \<Rightarrow> nat" where
  "ends cs = length (filter is_End cs)"

text \<open>One of the three flags every write attempt checks first is set.\<close>

definition guarded :: "response \<Rightarrow> bool" where
  "guarded res = (aborted res \<or> done' res \<or> calledNext res)"

text \<open>
  The invariant of the guard on a connection that had \<open>k\<close> \<open>end\<close> calls when the
  handler was invoked: none is added before \<open>done\<close> is set, at most one after.
\<close>

definition single :: "nat \<Rightarrow> response \<Rightarrow> bool" where
  "single k res = (ends (written res) \<le> k + (if done' res then 1 else 0))"

section \<open>Route registration\<close>

record options =
  opt_host :: "string option"
  opt_port :: "nat option"

text \<open>
  The \<open>App\<close> object: its host and port, and the routes handed to the transport, each
  with the transport's method key, the pattern and the handler.
\<close>

record app =
  host :: string
  port :: nat
  routes :: "(string \<times> string \<times> handler) list"

definition new_App :: "options \<Rightarrow> app" where
  "new_App opts =
     \<lparr>host = (if opt_host opts = Some ''localhost'' then ''127.0.0.1''
              else (case opt_host opts of None \<Rightarrow> ''0.0.0.0'' | Some h \<Rightarrow> h)),
      port = (case opt_port opts of None \<Rightarrow> 0 | Some p \<Rightarrow> p),
      routes = []\<rparr>"

text \<open>
  A method of \<open>App\<close> gives the object after the call and what the call returns:
  \<open>Some\<close> of the object for \<open>return this\<close>, \<open>None\<close> for \<open>undefined\<close>.
\<close>

subsection \<open>Fuller variant\<close>

definition handle_full :: "string \<Rightarrow> string \<Rightarrow> handler \<Rightarrow> app \<Rightarrow> app \<times> app option" where
  "handle_full method path h this =
     (let this1 = this\<lparr>routes := routes this @ [(method, path, h)]\<rparr> in (this1, Some this1))"

definition use_full :: "string \<Rightarrow> handler \<Rightarrow> app \<Rightarrow> app \<times> app option" where
  "use_full path h this = handle_full ''any'' path h this"

definition get_full :: "string \<Rightarrow> handler \<Rightarrow> app \<Rightarrow> app \<times> app option" where
  "get_full path h this = handle_full ''get'' path h this"

definition post_full :: "string \<Rightarrow> handler \<Rightarrow> app \<Rightarrow> app \<times> app option" where
  "post_full path h this = handle_full ''post'' path h this"

definition put_full :: "string \<Rightarrow> handler \<Rightarrow> app \<Rightarrow> app \<times> app option" where
  "put_full path h this = handle_full ''put'' path h this"

definition patch_full :: "string \<Rightarrow> handler \<Rightarrow> app \<Rightarrow> app \<times> app option" where
  "patch_full path h this = handle_full ''patch'' path h this"

definition delete_full :: "string \<Rightarrow> handler \<Rightarrow> app \<Rightarrow> app \<times> app option" where
  "delete_full path h this = handle_full ''del'' path h this"

definition options_full :: "string \<Rightarrow> handler \<Rightarrow> app \<Rightarrow> app \<times> app option" where
  "options_full path h this = handle_full ''options'' path h this"

definition connect_full :: "string \<Rightarrow> handler \<Rightarrow> app \<Rightarrow> app \<times> app option" where
  "connect_full path h this = handle_full ''connect'' path h this"

definition head_full :: "string \<Rightarrow> handler \<Rightarrow> app \<Rightarrow> app \<times> app option" where
  "head_full path h this = handle_full ''head'' path h this"

subsection \<open>Minimal variant\<close>

text \<open>
  Here \<open>handle\<close> has no \<open>return\<close>, and the registration methods call it as a
  statement.
\<close>

definition handle_min :: "string \<Rightarrow> string \<Rightarrow> handler \<Rightarrow> app \<Rightarrow> app \<times> app option" where
  "handle_min method path h this = (this\<lparr>routes := routes this @ [(method, path, h)]\<rparr>, None)"

definition use_min :: "string \<Rightarrow> handler \<Rightarrow> app \<Rightarrow> app \<times> app option" where
  "use_min path h this = (fst (handle_min ''any'' path h this), None)"

definition get_min :: "string \<Rightarrow> handler \<Rightarrow> app \<Rightarrow> app \<times> app option" where
  "get_min path h this = (fst (handle_min ''get'' path h this), None)"

definition post_min :: "string \<Rightarrow> handler \<Rightarrow> app \<Rightarrow> app \<times> app option" where
  "post_min path h this = (fst (handle_min ''post'' path h this), None)"

definition put_min :: "string \<Rightarrow> handler \<Rightarrow> app \<Rightarrow> app \<times> app option" where
  "put_min path h this = (fst (handle_min ''put'' path h this), None)"

definition patch_min :: "string \<Rightarrow> handler \<Rightarrow> app \<Rightarrow> app \<times> app option" where
  "patch_min path h this = (fst (handle_min ''patch'' path h this), None)"

definition delete_min :: "string \<Rightarrow> handler \<Rightarrow> app \<Rightarrow> app \<times> app option" where
  "delete_min path h this = (fst (handle_min ''del'' path h this), None)"

definition options_min :: "string \<Rightarrow> handler \<Rightarrow> app \<Rightarrow> app \<times> app option" where
  "options_min path h this = (fst (handle_min ''options'' path h this), None)"

definition connect_min :: "string \<Rightarrow> handler \<Rightarrow> app \<Rightarrow> app \<times> app option" where
  "connect_min path h this = (fst (handle_min ''connect'' path h this), None)"

definition head_min :: "string \<Rightarrow> handler \<Rightarrow> app \<Rightarrow> app \<times> app option" where
  "head_min path h this = (fst (handle_min ''head'' path h this), None)"

text \<open>
  A chained call \<open>a.m(...).n(...)\<close>: the second method is called on what the first
  returned, and calling a method on \<open>undefined\<close> throws (\<open>None\<close>).
\<close>

definition chain :: "app \<times> app option \<Rightarrow> (app \<Rightarrow> app \<times> app option) \<Rightarrow> (app \<times> app option) option" where
  "chain r m = (case snd r of None \<Rightarrow> None | Some this \<Rightarrow> Some (m this))"

section \<open>Error rendering as the specification words it\<close>

text \<open>
  The specification's rule for a generic error, on optional fields: the status is
  derived from the \<open>status\<close> field, else from the \<open>code\<close> field, else it is 500; the
  reason is the \<open>reason\<close> field, else the \<open>message\<close> field, else
  \<open>Internal Server Error\<close> when the status is exactly 500 and empty otherwise; the wire
  message is the status, followed by a space and the reason when there is one.
  Deriving a status from a field is reading the integer its string form starts with
  (\<open>parseInt\<close>, which gives NaN when there is none).
\<close>

definition spec_status :: "runtime \<Rightarrow> jsval option \<Rightarrow> jsval option \<Rightarrow> jsval" where
  "spec_status rt status code =
     (case status of
        Some s \<Rightarrow> parseInt (ToString rt s)
      | None \<Rightarrow> (case code of Some c \<Rightarrow> parseInt (ToString rt c) | None \<Rightarrow> JNum 500))"

definition spec_reason :: "runtime \<Rightarrow> jsval option \<Rightarrow> jsval option \<Rightarrow> jsval \<Rightarrow> string option" where
  "spec_reason rt reason message status =
     (case reason of
        Some r \<Rightarrow> Some (ToString rt r)
      | None \<Rightarrow>
         (case message of
            Some m \<Rightarrow> Some (ToString rt m)
          | None \<Rightarrow> (if status = JNum 500 then Some ''Internal Server Error'' else None)))"

definition spec_message :: "runtime \<Rightarrow> jsval \<Rightarrow> string option \<Rightarrow> string" where
  "spec_message rt status reason =
     (case reason of
        None \<Rightarrow> ToString rt status
      | Some r \<Rightarrow> ToString rt status @ '' '' @ r)"

text \<open>
  An error's field as the optional field of the rule. A \<open>status\<close> or \<open>code\<close> field is
  there unless it is \<open>undefined\<close> or \<open>null\<close>; a \<open>reason\<close> or \<open>message\<close> field is
  there when it is truthy (so an empty message counts as none).
\<close>

definition status_field :: "jsval \<Rightarrow> string \<Rightarrow> jsval option" where
  "status_field error k =
     (if get_prop error k = JUndefined \<or> get_prop error k = JNull then None
      else Some (get_prop error k))"

definition reason_field :: "jsval \<Rightarrow> string \<Rightarrow> jsval option" where
  "reason_field error k = (if truthy (get_prop error k) then Some (get_prop error k) else None)"

text \<open>
  The rule applied to what was thrown. The minimal variant has no \<open>code\<close> field in
  its rule: \<open>with_code\<close> says whether the field is read.
\<close>

definition spec_render :: "runtime \<Rightarrow> bool \<Rightarrow> jsval \<Rightarrow> string" where
  "spec_render rt with_code error =
     (let status = spec_status rt (status_field error ''status'')
            (if with_code then status_field error ''code'' else None);
          reason = spec_reason rt (reason_field error ''reason'')
            (reason_field error ''message'') status
      in spec_message rt status reason)"

section \<open>A request passed on by \<open>next()\<close>\<close>

text \<open>
  Modelled from the spec: what the transport does with a yield is not in the sources.
  By the specification, on \<open>next()\<close> "the transport is told to try the next matching
  route registration for the same request", and every registration it runs starts from a
  response guard "initialized with all flags false"; the test \<open>using next()\<close> relies on
  that, since the second handler answers although the first has set \<open>calledNext\<close>.
  So the registrations matching a request run in order, each on unset flags and on the
  connection as the ones before left it, for as long as the one before asked to yield.
  The transport sees a yield only if \<open>next()\<close> is called before the callback first
  suspends; every yield is taken here as seen, which can only add registrations tried.
  The result is the list of calls made on the connection.
\<close>

fun route_full :: "runtime \<Rightarrow> handler list \<Rightarrow> call list \<Rightarrow> call list" where
  "route_full rt [] w = w"
| "route_full rt (h # hs) w =
     (let res = run_full rt h (fresh\<lparr>written := w\<rparr>)
      in if yield res then route_full rt hs (written res) else written res)"

fun route_min :: "runtime \<Rightarrow> handler list \<Rightarrow> call list \<Rightarrow> call list" where
  "route_min rt [] w = w"
| "route_min rt (h # hs) w =
     (let res = run_min rt h (fresh\<lparr>written := w\<rparr>)
      in if yield res then route_min rt hs (written res) else written res)"

definition request_full :: "runtime \<Rightarrow> handler list \<Rightarrow> call list" where
  "request_full rt hs = route_full rt hs []"

definition request_min :: "runtime \<Rightarrow> handler list \<Rightarrow> call list" where
  "request_min rt hs = route_min rt hs []"

section \<open>A runtime for the examples\<close>

text \<open>
  The values the library functions take at the inputs the examples below use:
  \<open>JSON.parse\<close> accepts the text \<open>{"a":1}\<close> and rejects its prefix \<open>{"a":\<close>,
  \<open>JSON.stringify\<close> prints the object \<open>{a: 1}\<close> and throws a TypeError on an object
  tagged \<open>cyclic\<close>, \<open>querystring.parse\<close> reads \<open>a=1\<close>, \<open>Buffer.toString\<close>
  leaves ASCII bytes as they are, and the number \<open>1e21\<close> prints as \<open>1e+21\<close>. Inputs
  outside the tables are not used.
\<close>

definition JSON_parse_table :: "(string \<times> (string + jsval)) list" where
  \<open>JSON_parse_table =
     [(''{"a":1}'', Inr (JObj PlainObject [(''a'', JNum 1)])),
      (''{"a":'', Inl ''Unexpected end of JSON input'')]\<close>

definition JSON_stringify_table :: "(jsval \<times> (jsval + jsval)) list" where
  \<open>JSON_stringify_table =
     [(JObj PlainObject [(''a'', JNum 1)], Inr (JStr ''{"a":1}'')),
      (JObj PlainObject [(''cyclic'', JBool True)],
         Inl (new_Error ''Converting circular structure to JSON''))]\<close>

definition parseQueryString_table :: "(string \<times> jsval) list" where
  "parseQueryString_table = [(''a=1'', JObj PlainObject [(''a'', JStr ''1'')])]"

definition number_toString_table :: "(jsval \<times> string) list" where
  "number_toString_table = [(JNum 1000000000000000000000, ''1e+21'')]"

definition node :: runtime where
  "node =
     \<lparr>buffer_toString = (\<lambda>b. b),
      JSON_parse = (\<lambda>s. case map_of JSON_parse_table s of Some r \<Rightarrow> r | None \<Rightarrow> Inl []),
      JSON_stringify = (\<lambda>v. case map_of JSON_stringify_table v of Some r \<Rightarrow> r | None \<Rightarrow> Inr JUndefined),
      parseQueryString = (\<lambda>s. case map_of parseQueryString_table s of Some v \<Rightarrow> v | None \<Rightarrow> JObj PlainObject []),
      object_toString = (\<lambda>v. ''[object Object]''),
      number_toString = (\<lambda>v. case map_of number_toString_table v of Some t \<Rightarrow> t | None \<Rightarrow> []),
      development = True\<rparr>"

text \<open>
  A handler that sends twice, is aborted in between, throws, and sends and yields again
  from a callback it left behind.
\<close>

definition busy_handler :: handler where
  "busy_handler =
     \<lparr>before = [Send (JStr ''first''), Abort, Send (JStr ''second'')],
      settles = Throws (new_Error ''late''),
      later = [Send (JNum 3), Next]\<rparr>"

text \<open>Content types, errors, handlers and an application for the examples.\<close>

definition text_json :: content_type where
  "text_json = \<lparr>type = ''text'', subtype = ''json''\<rparr>"

definition application_json :: content_type where
  "application_json = \<lparr>type = ''application'', subtype = ''json''\<rparr>"



text \<open>A file-system error of Node, whose \<open>code\<close> is a string.\<close>

definition enoent_error :: jsval where
  "enoent_error = JObj ErrorObject [(''message'', JStr ''boom''), (''code'', JStr ''ENOENT'')]"

text \<open>An error whose \<open>status\<close> is the number \<open>1e21\<close>.\<close>

definition huge_error :: jsval where
  "huge_error =
     JObj ErrorObject [(''message'', JStr ''X''), (''status'', JNum 1000000000000000000000)]"

text \<open>A handler that sends and then yields: \<open>(req, res, next) => { res.send('a'); next(); }\<close>\<close>

definition send_then_next :: handler where
  "send_then_next = \<lparr>before = [Send (JStr ''a''), Next], settles = Returns JUndefined, later = []\<rparr>"


definition returns :: "jsval \<Rightarrow> handler" where
  "returns b = \<lparr>before = [], settles = Returns b, later = []\<rparr>"

definition app0 :: app where
  "app0 = new_App \<lparr>opt_host = Some ''localhost'', opt_port = None\<rparr>"

section \<open>Decimal numbers\<close>

lemma is_digit_char_of: "d < 10 \<Longrightarrow> is_digit (char_of (48 + d :: nat))"
  by (simp add: is_digit_def)

lemma digit_value_char_of: "d < 10 \<Longrightarrow> of_char (char_of (48 + d :: nat)) - 48 = d"
  by simp

lemma string_of_nat_digits: "list_all is_digit (string_of_nat n)"
proof (induction n rule: string_of_nat.induct)
  case (1 n)
  show ?case
  proof (cases "n < 10")
    case True
    then show ?thesis by (subst string_of_nat.simps) (simp add: is_digit_char_of)
  next
    case False
    have "n mod 10 < 10" by simp
    with False 1 show ?thesis
      by (subst string_of_nat.simps) (simp add: is_digit_char_of del: of_nat_add)
  qed
qed

lemma string_of_nat_nonempty: "string_of_nat n \<noteq> []"
  by (subst string_of_nat.simps) simp

lemma digits_value_snoc: "digits_value (ds @ [c]) = 10 * digits_value ds + (of_char c - 48)"
  by (simp add: digits_value_def)

lemma digits_value_string_of_nat: "digits_value (string_of_nat n) = n"
proof (induction n rule: string_of_nat.induct)
  case (1 n)
  show ?case
  proof (cases "n < 10")
    case True
    then show ?thesis by (subst string_of_nat.simps) (simp add: digits_value_def)
  next
    case False
    have "n mod 10 < 10" by simp
    then have "of_char (char_of (48 + n mod 10 :: nat)) - 48 = n mod 10"
      by (rule digit_value_char_of)
    with False 1 show ?thesis
      by (subst string_of_nat.simps) (simp add: digits_value_snoc del: of_nat_add)
  qed
qed

lemma hd_string_of_nat: "is_digit (hd (string_of_nat n))"
  using string_of_nat_digits [of n] string_of_nat_nonempty [of n]
  by (cases "string_of_nat n") simp_all

lemma parseInt_string_of_int: "parseInt (string_of_int i) = JNum i"
proof (cases "i < 0")
  case True
  have tw: "takeWhile is_digit (string_of_nat (nat (- i))) = string_of_nat (nat (- i))"
    using string_of_nat_digits [of "nat (- i)"] by (simp add: list_all_iff)
  have "\<not> is_space (CHR ''-'')" by (simp add: is_space_def)
  then show ?thesis using True
    by (simp add: parseInt_def string_of_int_def Let_def tw string_of_nat_nonempty
        digits_value_string_of_nat del: takeWhile_eq_all_conv)
next
  case False
  let ?s = "string_of_nat (nat i)"
  have d: "is_digit (hd ?s)" by (rule hd_string_of_nat)
  have ne: "?s \<noteq> []" by (rule string_of_nat_nonempty)
  have nsp: "\<not> is_space (hd ?s)" using d by (auto simp: is_digit_def is_space_def)
  have dw: "dropWhile is_space ?s = ?s" using ne nsp by (cases ?s) simp_all
  have nm: "hd ?s \<noteq> CHR ''-''" "hd ?s \<noteq> CHR ''+''" using d by (auto simp: is_digit_def)
  have tw: "takeWhile is_digit ?s = ?s"
    using string_of_nat_digits [of "nat i"] by (simp add: list_all_iff)
  from False nm ne show ?thesis
    by (simp add: parseInt_def string_of_int_def Let_def dw tw digits_value_string_of_nat
        del: takeWhile_eq_all_conv dropWhile_eq_self_iff)
qed

section \<open>The response guard writes at most once\<close>

lemma ends_append: "ends (xs @ ys) = ends xs + ends ys"
  by (simp add: ends_def)

lemma ends_simps: "ends [] = 0" "ends (WriteStatus s # cs) = ends cs"
  "ends (WriteHeader k v # cs) = ends cs" "ends (End b # cs) = Suc (ends cs)"
  by (simp_all add: ends_def)

lemma send_full_guarded: "guarded res \<Longrightarrow> send_full rt b res = (None, res)"
  by (auto simp: guarded_def send_full_def)

lemma send_min_guarded: "guarded res \<Longrightarrow> send_min rt b res = (None, res)"
  by (auto simp: guarded_def send_min_def)

lemma catch_full_guarded: "guarded res \<Longrightarrow> catch_full rt e res = res"
  by (auto simp: guarded_def catch_full_def)

lemma catch_min_guarded: "guarded res \<Longrightarrow> catch_min rt e res = res"
  by (auto simp: guarded_def catch_min_def)

lemma write_json_done: "done' (snd (write_json rt b res)) = done' res"
  by (simp add: write_json_def Let_def split: sum.splits)

lemma write_json_ends: "ends (written (snd (write_json rt b res))) \<le> Suc (ends (written res))"
  by (simp add: write_json_def Let_def ends_append ends_simps split: sum.splits)

lemma write_json_single:
  "ends (written res) \<le> k \<Longrightarrow> done' res \<Longrightarrow> single k (snd (write_json rt b res))"
  using write_json_ends [of rt b res] by (simp add: single_def write_json_done)

lemma send_full_single:
  assumes "single k res"
  shows "single k (snd (send_full rt b res))"
proof (cases "guarded res")
  case True
  with assms show ?thesis by (simp add: send_full_guarded)
next
  case False
  then have free: "\<not> aborted res" "\<not> done' res" "\<not> calledNext res"
    by (simp_all add: guarded_def)
  with assms have none: "ends (written res) \<le> k" by (simp add: single_def)
  have "single k (snd (write_json rt b (res\<lparr>calledSend := True, done' := True\<rparr>)))"
    by (rule write_json_single) (simp_all add: none)
  moreover have "single k (res\<lparr>calledSend := True\<rparr>)"
    using assms by (simp add: single_def)
  moreover have "single k (res\<lparr>calledSend := True, done' := True,
      written := written res @ [WriteStatus ''200 OK'', End b]\<rparr>)"
    using none by (simp add: single_def ends_append ends_simps)
  ultimately show ?thesis using free
    by (simp add: send_full_def Let_def)
qed

lemma send_min_single:
  assumes "single k res"
  shows "single k (snd (send_min rt b res))"
proof (cases "guarded res")
  case True
  with assms show ?thesis by (simp add: send_min_guarded)
next
  case False
  then have free: "\<not> aborted res" "\<not> done' res" "\<not> calledNext res"
    by (simp_all add: guarded_def)
  with assms have none: "ends (written res) \<le> k" by (simp add: single_def)
  have "single k (snd (write_json rt b (res\<lparr>calledSend := True, done' := True\<rparr>)))"
    by (rule write_json_single) (simp_all add: none)
  moreover have "single k (res\<lparr>calledSend := True\<rparr>)"
    using assms by (simp add: single_def)
  moreover have "single k (res\<lparr>calledSend := True, done' := True,
      written := written res @ [WriteStatus ''200 OK'', End b]\<rparr>)"
    using none by (simp add: single_def ends_append ends_simps)
  ultimately show ?thesis using free
    by (simp add: send_min_def Let_def)
qed

lemma catch_full_single: "single k res \<Longrightarrow> single k (catch_full rt e res)"
  by (auto simp: catch_full_def single_def Let_def ends_append ends_simps split: if_splits)

lemma catch_min_single: "single k res \<Longrightarrow> single k (catch_min rt e res)"
  by (auto simp: catch_min_def single_def Let_def ends_append ends_simps split: if_splits)

lemma next_single: "single k res \<Longrightarrow> single k (next res)"
  by (simp add: single_def next_def)

lemma onAborted_single: "single k res \<Longrightarrow> single k (onAborted res)"
  by (simp add: single_def onAborted_def)

lemma try_full_single: "single k res \<Longrightarrow> single k (snd (try_full rt b res))"
  by (simp add: try_full_def send_full_single)

lemma try_min_single: "single k res \<Longrightarrow> single k (snd (try_min rt b res))"
  by (simp add: try_min_def send_min_single)

lemma after_await_full_single:
  assumes "single k res"
  shows "single k (after_await_full rt s res)"
proof (cases s)
  case (Returns b)
  obtain t res1 where t: "try_full rt b res = (t, res1)" by (cases "try_full rt b res")
  have "single k res1" using try_full_single [OF assms, of rt b] t by simp
  then show ?thesis using Returns t
    by (cases t) (simp_all add: after_await_full_def catch_full_single)
qed (simp_all add: after_await_full_def assms catch_full_single)

lemma after_await_min_single:
  assumes "single k res"
  shows "single k (after_await_min rt s res)"
proof (cases s)
  case (Returns b)
  obtain t res1 where t: "try_min rt b res = (t, res1)" by (cases "try_min rt b res")
  have "single k res1" using try_min_single [OF assms, of rt b] t by simp
  then show ?thesis using Returns t
    by (cases t) (simp_all add: after_await_min_def catch_min_single)
qed (simp_all add: after_await_min_def assms catch_min_single)

lemma run_events_single:
  assumes step: "\<And>b r. single k r \<Longrightarrow> single k (snd (sendf b r))"
  shows "single k res \<Longrightarrow> single k (snd (run_events sendf es res))"
proof (induction es arbitrary: res)
  case Nil
  then show ?case by simp
next
  case (Cons e es)
  show ?case
  proof (cases e)
    case (Send b)
    obtain t res1 where t: "sendf b res = (t, res1)" by (cases "sendf b res")
    have "single k (snd (sendf b res))" using Cons.prems by (rule step)
    with t have "single k res1" by simp
    then show ?thesis using Send t Cons.IH by (cases t) simp_all
  next
    case (SendCaught b)
    have "single k (snd (sendf b res))" using Cons.prems by (rule step)
    then show ?thesis using SendCaught Cons.IH by simp
  next
    case Next
    then show ?thesis using Cons by (simp add: next_single)
  next
    case Abort
    then show ?thesis using Cons by (simp add: onAborted_single)
  qed
qed

lemma run_later_single:
  assumes step: "\<And>b r. single k r \<Longrightarrow> single k (snd (sendf b r))"
  shows "single k res \<Longrightarrow> single k (run_later sendf es res)"
  unfolding run_later_def
proof (induction es arbitrary: res)
  case (Cons e es)
  have "single k (snd (run_events sendf [e] res))"
    using step Cons.prems by (rule run_events_single)
  then show ?case using Cons.IH by simp
qed simp

lemma fresh_single: "single (ends w) (fresh\<lparr>written := w\<rparr>)"
  by (simp add: single_def fresh_def)

lemma run_full_single:
  assumes "single k res"
  shows "single k (run_full rt h res)"
proof -
  obtain t res1 where t: "run_events (send_full rt) (before h) res = (t, res1)"
    by (cases "run_events (send_full rt) (before h) res")
  have "single k (snd (run_events (send_full rt) (before h) res))"
    using send_full_single assms by (rule run_events_single)
  with t have "single k res1" by simp
  then have "single k (run_later (send_full rt) (later h) (after_await_full rt s res1))" for s
    by (intro run_later_single send_full_single after_await_full_single)
  then show ?thesis using t by (cases t) (simp_all add: run_full_def)
qed

lemma run_min_single:
  assumes "single k res"
  shows "single k (run_min rt h res)"
proof -
  obtain t res1 where t: "run_events (send_min rt) (before h) res = (t, res1)"
    by (cases "run_events (send_min rt) (before h) res")
  have "single k (snd (run_events (send_min rt) (before h) res))"
    using send_min_single assms by (rule run_events_single)
  with t have "single k res1" by simp
  then have "single k (run_later (send_min rt) (later h) (after_await_min rt s res1))" for s
    by (intro run_later_single send_min_single after_await_min_single)
  then show ?thesis using t by (cases t) (simp_all add: run_min_def)
qed

lemma single_le: "single k res \<Longrightarrow> ends (written res) \<le> Suc k"
  by (simp add: single_def split: if_splits)

lemma run_full_adds_one: "ends (written (run_full rt h (fresh\<lparr>written := w\<rparr>))) \<le> Suc (ends w)"
  by (intro single_le run_full_single fresh_single)

lemma run_min_adds_one: "ends (written (run_min rt h (fresh\<lparr>written := w\<rparr>))) \<le> Suc (ends w)"
  by (intro single_le run_min_single fresh_single)

lemma route_full_bound: "ends (route_full rt hs w) \<le> ends w + length hs"
proof (induction hs arbitrary: w)
  case Nil
  then show ?case by simp
next
  case (Cons h hs)
  let ?res = "run_full rt h (fresh\<lparr>written := w\<rparr>)"
  have one: "ends (written ?res) \<le> Suc (ends w)" by (rule run_full_adds_one)
  show ?case
  proof (cases "yield ?res")
    case True
    have "ends (route_full rt hs (written ?res)) \<le> ends (written ?res) + length hs"
      by (rule Cons.IH)
    with one True show ?thesis by (simp add: Let_def)
  next
    case False
    with one show ?thesis by (simp add: Let_def)
  qed
qed

lemma route_min_bound: "ends (route_min rt hs w) \<le> ends w + length hs"
proof (induction hs arbitrary: w)
  case Nil
  then show ?case by simp
next
  case (Cons h hs)
  let ?res = "run_min rt h (fresh\<lparr>written := w\<rparr>)"
  have one: "ends (written ?res) \<le> Suc (ends w)" by (rule run_min_adds_one)
  show ?case
  proof (cases "yield ?res")
    case True
    have "ends (route_min rt hs (written ?res)) \<le> ends (written ?res) + length hs"
      by (rule Cons.IH)
    with one True show ?thesis by (simp add: Let_def)
  next
    case False
    with one show ?thesis by (simp add: Let_def)
  qed
qed



lemma next_guarded: "guarded (next res)" "written (next res) = written res"
  by (simp_all add: guarded_def next_def)

lemma onAborted_guarded: "guarded (onAborted res)" "written (onAborted res) = written res"
  by (simp_all add: guarded_def onAborted_def)

lemma try_full_guarded: "guarded res \<Longrightarrow> snd (try_full rt b res) = res"
  by (simp add: try_full_def send_full_guarded)

lemma try_min_guarded: "guarded res \<Longrightarrow> snd (try_min rt b res) = res"
  by (simp add: try_min_def send_min_guarded)

lemma after_await_full_guarded:
  assumes "guarded res"
  shows "after_await_full rt s res = res"
proof (cases s)
  case (Returns b)
  obtain t res1 where t: "try_full rt b res = (t, res1)" by (cases "try_full rt b res")
  with try_full_guarded [OF assms, of rt b] have "res1 = res" by simp
  with Returns t assms show ?thesis
    by (cases t) (simp_all add: after_await_full_def catch_full_guarded)
qed (simp_all add: after_await_full_def assms catch_full_guarded)

lemma after_await_min_guarded:
  assumes "guarded res"
  shows "after_await_min rt s res = res"
proof (cases s)
  case (Returns b)
  obtain t res1 where t: "try_min rt b res = (t, res1)" by (cases "try_min rt b res")
  with try_min_guarded [OF assms, of rt b] have "res1 = res" by simp
  with Returns t assms show ?thesis
    by (cases t) (simp_all add: after_await_min_def catch_min_guarded)
qed (simp_all add: after_await_min_def assms catch_min_guarded)

lemma run_events_guarded:
  assumes step: "\<And>b r. guarded r \<Longrightarrow> sendf b r = (None, r)"
  shows "guarded res \<Longrightarrow>
    guarded (snd (run_events sendf es res)) \<and> written (snd (run_events sendf es res)) = written res"
proof (induction es arbitrary: res)
  case Nil
  then show ?case by simp
next
  case (Cons e es)
  show ?case
  proof (cases e)
    case (Send b)
    then show ?thesis using Cons by (simp add: step)
  next
    case (SendCaught b)
    then show ?thesis using Cons by (simp add: step)
  next
    case Next
    then show ?thesis using Cons.IH [of "next res"] by (simp add: next_guarded)
  next
    case Abort
    then show ?thesis using Cons.IH [of "onAborted res"] by (simp add: onAborted_guarded)
  qed
qed

lemma run_later_guarded:
  assumes step: "\<And>b r. guarded r \<Longrightarrow> sendf b r = (None, r)"
  shows "guarded res \<Longrightarrow>
    guarded (run_later sendf es res) \<and> written (run_later sendf es res) = written res"
  unfolding run_later_def
proof (induction es arbitrary: res)
  case (Cons e es)
  have "guarded (snd (run_events sendf [e] res)) \<and>
      written (snd (run_events sendf [e] res)) = written res"
    using step Cons.prems by (rule run_events_guarded)
  then show ?case using Cons.IH [of "snd (run_events sendf [e] res)"] by simp
qed simp

lemma run_full_guarded:
  assumes "guarded res"
  shows "written (run_full rt h res) = written res"
proof -
  obtain t res1 where t: "run_events (send_full rt) (before h) res = (t, res1)"
    by (cases "run_events (send_full rt) (before h) res")
  have "guarded (snd (run_events (send_full rt) (before h) res)) \<and>
      written (snd (run_events (send_full rt) (before h) res)) = written res"
    using send_full_guarded assms by (rule run_events_guarded)
  with t have res1: "guarded res1" "written res1 = written res" by simp_all
  have "written (run_later (send_full rt) (later h) (after_await_full rt s res1)) = written res" for s
    using run_later_guarded [of "send_full rt" res1 "later h", OF send_full_guarded res1(1)] res1
    by (simp add: after_await_full_guarded)
  then show ?thesis using t by (cases t) (simp_all add: run_full_def)
qed

lemma run_min_guarded:
  assumes "guarded res"
  shows "written (run_min rt h res) = written res"
proof -
  obtain t res1 where t: "run_events (send_min rt) (before h) res = (t, res1)"
    by (cases "run_events (send_min rt) (before h) res")
  have "guarded (snd (run_events (send_min rt) (before h) res)) \<and>
      written (snd (run_events (send_min rt) (before h) res)) = written res"
    using send_min_guarded assms by (rule run_events_guarded)
  with t have res1: "guarded res1" "written res1 = written res" by simp_all
  have "written (run_later (send_min rt) (later h) (after_await_min rt s res1)) = written res" for s
    using run_later_guarded [of "send_min rt" res1 "later h", OF send_min_guarded res1(1)] res1
    by (simp add: after_await_min_guarded)
  then show ?thesis using t by (cases t) (simp_all add: run_min_def)
qed

text \<open>
  Over the registrations tried for one request, each adds at most one \<open>end\<close> call.
\<close>

lemma request_ends_bound:
  "ends (request_full rt hs) \<le> length hs \<and> ends (request_min rt hs) \<le> length hs"
  using route_full_bound [of rt hs "[]"] route_min_bound [of rt hs "[]"]
  by (simp add: request_full_def request_min_def ends_simps)

text \<open>
  Claim C1. As stated for a request, the claim fails: a handler that sends and then
  calls \<open>next()\<close> has its response ended, and the registration the transport tries next
  ends it again, since \<open>next()\<close> does not look at \<open>done\<close> and the flags do not outlive
  the invocation.
\<close>

theorem send_then_next_ends_twice:
  "request_full node [send_then_next, returns (JStr ''b'')] =
     [WriteStatus ''200 OK'', End (JStr ''a''), WriteStatus ''200 OK'', End (JStr ''b'')] \<and>
   ends (request_full node [send_then_next, returns (JStr ''b'')]) = 2 \<and>
   request_min node [send_then_next, returns (JStr ''b'')] =
     [WriteStatus ''200 OK'', End (JStr ''a''), WriteStatus ''200 OK'', End (JStr ''b'')] \<and>
   ends (request_min node [send_then_next, returns (JStr ''b'')]) = 2"
  by (simp add: request_full_def request_min_def send_then_next_def returns_def
      run_full_def run_min_def run_later_def send_full_def send_min_def next_def
      after_await_full_def after_await_min_def try_full_def try_min_def fresh_def
      Let_def ends_simps)

text \<open>
  Claim C1. In one invocation of a handler, whatever the handler does before and after it
  settles and whenever the transport reports an abort, \<open>end\<close> is called at most once on
  the response, in both variants. On a response whose \<open>aborted\<close>, \<open>done\<close> or
  \<open>calledNext\<close> flag is set, \<open>response.send\<close>, the \<open>catch\<close> block and everything
  after the \<open>await\<close> return at their guards and leave the response as it is, and a whole
  invocation started there writes nothing.
\<close>

theorem response_guard_single_write:
  "ends (written (dispatch_full rt h)) \<le> 1 \<and>
   ends (written (dispatch_min rt h)) \<le> 1 \<and>
   (aborted res \<or> done' res \<or> calledNext res \<longrightarrow>
      send_full rt b res = (None, res) \<and> catch_full rt e res = res \<and>
      after_await_full rt s res = res \<and> written (run_full rt h res) = written res \<and>
      send_min rt b res = (None, res) \<and> catch_min rt e res = res \<and>
      after_await_min rt s res = res \<and> written (run_min rt h res) = written res)"
proof (intro conjI impI)
  have "ends (written (run_full rt h (fresh\<lparr>written := []\<rparr>))) \<le> Suc (ends [])"
    by (rule run_full_adds_one)
  then show "ends (written (dispatch_full rt h)) \<le> 1"
    by (simp add: dispatch_full_def fresh_def ends_simps)
  have "ends (written (run_min rt h (fresh\<lparr>written := []\<rparr>))) \<le> Suc (ends [])"
    by (rule run_min_adds_one)
  then show "ends (written (dispatch_min rt h)) \<le> 1"
    by (simp add: dispatch_min_def fresh_def ends_simps)
next
  assume "aborted res \<or> done' res \<or> calledNext res"
  then have g: "guarded res" by (simp add: guarded_def)
  show "send_full rt b res = (None, res)" using g by (rule send_full_guarded)
  show "catch_full rt e res = res" using g by (rule catch_full_guarded)
  show "after_await_full rt s res = res" using g by (rule after_await_full_guarded)
  show "written (run_full rt h res) = written res" using g by (rule run_full_guarded)
  show "send_min rt b res = (None, res)" using g by (rule send_min_guarded)
  show "catch_min rt e res = res" using g by (rule catch_min_guarded)
  show "after_await_min rt s res = res" using g by (rule after_await_min_guarded)
  show "written (run_min rt h res) = written res" using g by (rule run_min_guarded)
qed

theorem response_guard_single_write_witness:
  "done' (fresh\<lparr>done' := True\<rparr>) \<and>
   send_full node (JStr ''x'') (fresh\<lparr>done' := True\<rparr>) = (None, fresh\<lparr>done' := True\<rparr>) \<and>
   written (run_full node busy_handler (fresh\<lparr>done' := True\<rparr>)) = [] \<and>
   written (dispatch_full node busy_handler) = [WriteStatus ''200 OK'', End (JStr ''first'')] \<and>
   ends (written (dispatch_full node busy_handler)) \<le> 1"
  using response_guard_single_write [of node busy_handler "fresh\<lparr>done' := True\<rparr>" "JStr ''x''"]
  by (simp add: fresh_def dispatch_full_def run_full_def busy_handler_def send_full_def
      after_await_full_def catch_full_def run_later_def next_def onAborted_def Let_def)

lemma send_full_after:
  "guarded (snd (send_full rt b res)) \<or>
   (snd (send_full rt b res) = res\<lparr>calledSend := True\<rparr> \<and> \<not> guarded res \<and>
    typeof b \<noteq> ''string'' \<and> typeof b \<noteq> ''number'' \<and> \<not> isJSON rt b)"
  by (simp add: send_full_def guarded_def Let_def write_json_done)

lemma send_min_after:
  "guarded (snd (send_min rt b res)) \<or>
   (snd (send_min rt b res) = res\<lparr>calledSend := True\<rparr> \<and> \<not> guarded res \<and>
    typeof b \<noteq> ''string'' \<and> typeof b \<noteq> ''object'')"
  by (simp add: send_min_def guarded_def Let_def write_json_done)

lemma send_full_twice: "send_full rt b (snd (send_full rt b res)) = (None, snd (send_full rt b res))"
  using send_full_after [of rt b res]
proof
  assume "guarded (snd (send_full rt b res))"
  then show ?thesis by (rule send_full_guarded)
next
  assume a: "snd (send_full rt b res) = res\<lparr>calledSend := True\<rparr> \<and> \<not> guarded res \<and>
    typeof b \<noteq> ''string'' \<and> typeof b \<noteq> ''number'' \<and> \<not> isJSON rt b"
  then show ?thesis by (simp add: send_full_def guarded_def)
qed

lemma send_min_twice: "send_min rt b (snd (send_min rt b res)) = (None, snd (send_min rt b res))"
  using send_min_after [of rt b res]
proof
  assume "guarded (snd (send_min rt b res))"
  then show ?thesis by (rule send_min_guarded)
next
  assume a: "snd (send_min rt b res) = res\<lparr>calledSend := True\<rparr> \<and> \<not> guarded res \<and>
    typeof b \<noteq> ''string'' \<and> typeof b \<noteq> ''object''"
  then show ?thesis by (simp add: send_min_def guarded_def)
qed

text \<open>
  Claim C7. A second \<open>response.send(b)\<close> right after the first leaves the response (the
  calls written and the four flags) as the first left it and throws nothing, for every
  value and every state of the response, in both variants.
\<close>

theorem send_idempotent:
  "snd (send_full rt b (snd (send_full rt b res))) = snd (send_full rt b res) \<and>
   fst (send_full rt b (snd (send_full rt b res))) = None \<and>
   snd (send_min rt b (snd (send_min rt b res))) = snd (send_min rt b res) \<and>
   fst (send_min rt b (snd (send_min rt b res))) = None"
  by (simp add: send_full_twice send_min_twice)

section \<open>The body decoder\<close>

text \<open>The rows of the decision table that the code follows.\<close>

lemma parse_null: "parse rt None buf = ([], Inl (invalid_content_type ''null''))"
  by (simp add: parse_def)

lemma parse_text:
  "type ct = ''text'' \<Longrightarrow> subtype ct = ''plain'' \<or> subtype ct = ''html'' \<Longrightarrow>
   parse rt (Some ct) buf = ([], Inr (JStr (buffer_toString rt buf)))"
  by (auto simp: parse_def parse_switch_def case_text_def seq_def)

lemma parse_application_json:
  "type ct = ''application'' \<Longrightarrow> subtype ct = ''json'' \<Longrightarrow>
   JSON_parse rt (buffer_toString rt buf) = Inr v \<Longrightarrow> parse rt (Some ct) buf = ([], Inr v)"
  by (simp add: parse_def parse_switch_def case_application_def seq_def)

lemma parse_application_form:
  "type ct = ''application'' \<Longrightarrow> subtype ct = ''x-www-form-urlencoded'' \<Longrightarrow>
   parse rt (Some ct) buf = ([], Inr (parseQueryString rt (buffer_toString rt buf)))"
  by (simp add: parse_def parse_switch_def case_application_def seq_def)

lemma parse_unsupported:
  "(type ct = ''application'' \<and> (subtype ct = ''javascript'' \<or> subtype ct = ''xml''))
   \<or> type ct = ''multipart''
   \<or> (type ct \<noteq> ''text'' \<and> type ct \<noteq> ''application'' \<and> type ct \<noteq> ''multipart'')
   \<or> (type ct = ''application'' \<and> subtype ct \<noteq> ''json'' \<and> subtype ct \<noteq> ''x-www-form-urlencoded'') \<Longrightarrow>
   parse rt (Some ct) buf = ([], Inl (invalid_content_type (type ct @ ''/'' @ subtype ct)))"
  by (auto simp: parse_def parse_switch_def case_application_def case_multipart_def seq_def)

lemma parse_text_falls_through:
  "type ct = ''text'' \<Longrightarrow> subtype ct \<noteq> ''plain'' \<Longrightarrow> subtype ct \<noteq> ''html'' \<Longrightarrow>
   parse_switch rt ct buf = parse_switch rt (ct\<lparr>type := ''application''\<rparr>) buf"
  by (simp add: parse_switch_def case_text_def case_application_def case_multipart_def seq_def)

text \<open>
  Claim C2. A content type \<open>text/json\<close> is not refused: control falls from the
  \<open>text\<close> case into the \<open>application\<close> case, whose \<open>json\<close> rule parses the buffer
  and returns the parsed value.
\<close>

theorem text_json_decoded_as_json:
  \<open>parse node (Some text_json) ''{"a":1}'' = ([], Inr (JObj PlainObject [(''a'', JNum 1)]))\<close>
  by (simp add: parse_def parse_switch_def case_text_def case_application_def seq_def
      text_json_def node_def JSON_parse_table_def)

text \<open>
  Claim C3. As stated, the claim fails: on the malformed text \<open>{"a":\<close> with content
  type \<open>application/json\<close>, \<open>parse\<close> returns \<open>undefined\<close> and the promise of
  \<open>body()\<close> is resolved with it, not rejected.
\<close>

theorem malformed_json_resolves:
  \<open>JSON_parse node ''{"a":'' = Inl ''Unexpected end of JSON input'' \<and>
   snd (parse node (Some application_json) ''{"a":'') = Inr JUndefined \<and>
   outcome (body node (Some application_json) [(''{"a":'', True)]) = Resolved JUndefined\<close>
  by (simp add: parse_def parse_switch_def case_application_def seq_def body_def onData_def
      settle_def application_json_def node_def JSON_parse_table_def Let_def)

lemma onData_not_last:
  "onData rt ct (c, False) r =
     r\<lparr>buffer := Some ((case buffer r of None \<Rightarrow> [] | Some b \<Rightarrow> b) @ c)\<rparr>"
  by (simp add: onData_def Let_def split: option.splits)

lemma onData_last:
  "onData rt ct (c, True) r =
     (let buf = (case buffer r of None \<Rightarrow> [] | Some b \<Rightarrow> b) @ c in
      case parse rt ct buf of
        (warnings, Inr v) \<Rightarrow>
          r\<lparr>buffer := Some buf, outcome := settle (outcome r) (Resolved v),
            console := console r @ warnings\<rparr>
      | (warnings, Inl error) \<Rightarrow>
          r\<lparr>buffer := Some buf, outcome := settle (outcome r) (Rejected error),
            console := console r @ warnings\<rparr>)"
  by (simp add: onData_def Let_def split: option.splits prod.splits sum.splits)

lemma fold_onData_not_last:
  "fold (onData rt ct) (map (\<lambda>x. (x, False)) cs) r =
     (if cs = [] then r
      else r\<lparr>buffer := Some ((case buffer r of None \<Rightarrow> [] | Some b \<Rightarrow> b) @ concat cs)\<rparr>)"
proof (induction cs arbitrary: r)
  case Nil
  then show ?case by simp
next
  case (Cons c cs)
  show ?case by (simp add: Cons.IH onData_not_last)
qed

lemma body_buffer:
  "body rt ct (map (\<lambda>x. (x, False)) cs @ [(c, True)]) =
     (case parse rt ct (concat cs @ c) of
        (warnings, Inr v) \<Rightarrow> \<lparr>buffer = Some (concat cs @ c), outcome = Resolved v, console = warnings\<rparr>
      | (warnings, Inl error) \<Rightarrow> \<lparr>buffer = Some (concat cs @ c), outcome = Rejected error, console = warnings\<rparr>)"
  by (simp add: body_def fold_onData_not_last onData_last Let_def settle_def
      split: prod.splits sum.splits)

text \<open>
  Claim C3. For content type \<open>application/json\<close> and a body, arriving in any number
  of chunks, whose text \<open>JSON.parse\<close> rejects, \<open>parse\<close> catches the error, writes a
  warning to the console in development mode only, and returns \<open>undefined\<close>; the
  promise of \<open>body()\<close> is resolved with \<open>undefined\<close>.
\<close>

theorem malformed_json_swallowed:
  assumes "type ct = ''application''" and "subtype ct = ''json''"
    and "JSON_parse rt (buffer_toString rt (concat cs @ c)) = Inl msg"
  shows "parse rt (Some ct) (concat cs @ c) =
           (if development rt
            then [''Failed parsing body with '' @ [CHR 0x22] @ msg @ [CHR 0x22]] else [],
            Inr JUndefined) \<and>
         outcome (body rt (Some ct) (map (\<lambda>x. (x, False)) cs @ [(c, True)])) = Resolved JUndefined"
proof -
  have p: "parse rt (Some ct) (concat cs @ c) =
           (if development rt
            then [''Failed parsing body with '' @ [CHR 0x22] @ msg @ [CHR 0x22]] else [],
            Inr JUndefined)"
    using assms
    by (simp add: parse_def parse_switch_def case_application_def seq_def new_Error_def)
  then show ?thesis by (simp add: body_buffer)
qed

theorem malformed_json_swallowed_witness:
  \<open>JSON_parse node (buffer_toString node (concat [''{"''] @ ''a":'')) = Inl ''Unexpected end of JSON input'' \<and>
   parse node (Some application_json) ''{"a":'' =
     ([''Failed parsing body with "Unexpected end of JSON input"''], Inr JUndefined) \<and>
   outcome (body node (Some application_json) [(''{"'', False), (''a":'', True)]) = Resolved JUndefined\<close>
  using malformed_json_swallowed [of application_json node "[''{'' @ [CHR 0x22]]" "''a'' @ [CHR 0x22] @ '':''"
      "''Unexpected end of JSON input''"]
  by (simp add: application_json_def node_def JSON_parse_table_def)


section \<open>Error responses\<close>


lemma string_of_int_204: "string_of_int 204 = ''204''"
  by code_simp

lemma parseInt_examples:
  "parseInt ''404'' = JNum 404" "parseInt ''401'' = JNum 401" "parseInt ''ENOENT'' = JNaN"
  "parseInt ''1e+21'' = JNum 1"
  by code_simp+

lemma string_of_int_examples:
  "string_of_int 401 = ''401''" "string_of_int 404 = ''404''" "string_of_int 500 = ''500''"
  "string_of_int 1 = ''1''"
  by code_simp+

text \<open>A safe integer is read back from its string form.\<close>

lemma parseInt_ToString_safe:
  "\<bar>n\<bar> \<le> 9007199254740991 \<Longrightarrow> parseInt (ToString rt (JNum n)) = JNum n"
  by (simp add: parseInt_string_of_int)






text \<open>The rule on the usual fields: an integer status, a string code, a text message.\<close>

lemma spec_status_integer:
  assumes "get_prop error ''status'' = JNum n" and "\<bar>n\<bar> \<le> 9007199254740991"
  shows "spec_status rt (status_field error ''status'') c = JNum n"
  using assms by (simp add: spec_status_def status_field_def parseInt_string_of_int)

lemma spec_status_default:
  assumes "get_prop error ''status'' = JUndefined" and "get_prop error ''code'' = JUndefined"
  shows "spec_status rt (status_field error ''status'') (status_field error ''code'') = JNum 500"
  using assms by (simp add: spec_status_def status_field_def)

lemma spec_render_integer_status:
  assumes "get_prop error ''status'' = JNum n" and "\<bar>n\<bar> \<le> 9007199254740991"
    and "\<not> truthy (get_prop error ''reason'')" and "get_prop error ''message'' = JStr m"
    and "m \<noteq> []"
  shows "spec_render rt with_code error = string_of_int n @ '' '' @ m"
  using assms
  by (simp add: spec_render_def spec_status_def spec_reason_def spec_message_def
      status_field_def reason_field_def parseInt_string_of_int)

lemma spec_render_bare_error:
  assumes "get_prop error ''status'' = JUndefined" and "get_prop error ''code'' = JUndefined"
    and "\<not> truthy (get_prop error ''reason'')" and "\<not> truthy (get_prop error ''message'')"
  shows "spec_render rt with_code error = ''500 Internal Server Error''"
  using assms
  by (simp add: spec_render_def spec_status_def spec_reason_def spec_message_def
      status_field_def reason_field_def string_of_int_examples(3))



lemma catch_full_unguarded:
  "\<not> aborted res \<Longrightarrow> \<not> done' res \<Longrightarrow> \<not> calledNext res \<Longrightarrow>
   catch_full rt error res =
     res\<lparr>done' := True,
         written := written res @ [WriteStatus (error_message_full rt error),
                                   End (JStr (error_message_full rt error))]\<rparr>"
  by (simp add: catch_full_def Let_def)


lemma dispatch_full_simple:
  "dispatch_full rt \<lparr>before = [], settles = s, later = []\<rparr> = after_await_full rt s fresh"
  by (simp add: dispatch_full_def run_full_def run_later_def)

lemma dispatch_min_simple:
  "dispatch_min rt \<lparr>before = [], settles = s, later = []\<rparr> = after_await_min rt s fresh"
  by (simp add: dispatch_min_def run_min_def run_later_def)




text \<open>
  The rule on fields of other kinds. A string code with no leading digits gives the
  status NaN in the fuller variant; a status of \<open>1e21\<close> prints in exponent form, of which
  \<open>parseInt\<close> reads the leading 1.
\<close>

lemma string_code_example:
  "spec_render node True enoent_error = ''NaN boom'' \<and>
   spec_render node False enoent_error = ''500 boom''"
  by (simp add: enoent_error_def spec_render_def spec_status_def spec_reason_def
      spec_message_def status_field_def reason_field_def parseInt_examples string_of_int_examples)

lemma huge_status_example:
  "spec_render node True huge_error = ''1 X'' \<and> spec_render node False huge_error = ''1 X''"
  by (simp add: huge_error_def spec_render_def spec_status_def spec_reason_def
      spec_message_def status_field_def reason_field_def node_def number_toString_table_def
      parseInt_examples string_of_int_examples)



section \<open>Responses from values\<close>

text \<open>
  Claim C6. As stated for both variants, the claim fails on the minimal one: a handler
  returning the number 5 gets nothing written.
\<close>

theorem number_not_sent_by_minimal_variant:
  "dispatch_min node (returns (JNum 5)) = fresh\<lparr>calledSend := True\<rparr> \<and>
   written (dispatch_min node (returns (JNum 5))) = []"
  by (simp add: returns_def dispatch_min_simple after_await_min_def try_min_def send_min_def
      fresh_def Let_def)

lemma number_not_Error: "typeof v = ''number'' \<Longrightarrow> \<not> instanceof_Error v"
  by (cases v) simp_all

text \<open>
  Claim C6. With no guard flag set, \<open>response.send\<close> of a string \<open>S\<close> writes status
  \<open>200 OK\<close> and body \<open>S\<close> in both variants, and so does a handler that returns a
  non-empty \<open>S\<close> without having called \<open>response.send\<close>. A number \<open>v\<close> of any kind is
  written as it is with \<open>200 OK\<close> by the fuller variant when it is passed to
  \<open>response.send\<close>, and when it is returned and truthy, that is neither zero nor NaN;
  the minimal variant writes nothing for a number.
\<close>

theorem string_and_number_responses:
  assumes "\<not> aborted res" and "\<not> done' res" and "\<not> calledNext res"
    and "typeof v = ''number''"
  shows "send_full rt (JStr S) res =
           (None, res\<lparr>calledSend := True, done' := True,
                       written := written res @ [WriteStatus ''200 OK'', End (JStr S)]\<rparr>) \<and>
         send_min rt (JStr S) res = send_full rt (JStr S) res \<and>
         send_full rt v res =
           (None, res\<lparr>calledSend := True, done' := True,
                       written := written res @ [WriteStatus ''200 OK'', End v]\<rparr>) \<and>
         send_min rt v res = (None, res\<lparr>calledSend := True\<rparr>) \<and>
         (\<not> calledSend res \<and> S \<noteq> [] \<longrightarrow>
            after_await_full rt (Returns (JStr S)) res = snd (send_full rt (JStr S) res) \<and>
            after_await_min rt (Returns (JStr S)) res = snd (send_full rt (JStr S) res)) \<and>
         (\<not> calledSend res \<and> truthy v \<longrightarrow>
            after_await_full rt (Returns v) res = snd (send_full rt v res) \<and>
            after_await_min rt (Returns v) res = res\<lparr>calledSend := True\<rparr>)"
  using assms number_not_Error [OF assms(4)]
  by (simp add: send_full_def send_min_def after_await_full_def after_await_min_def
      try_full_def try_min_def Let_def)

theorem string_and_number_responses_witness:
  "\<not> aborted fresh \<and> \<not> done' fresh \<and> \<not> calledNext fresh \<and> \<not> calledSend fresh \<and>
   typeof (JNum 7) = ''number'' \<and> truthy (JNum 7) \<and> ''Hello World!'' \<noteq> [] \<and>
   written (after_await_full node (Returns (JStr ''Hello World!'')) fresh) =
     [WriteStatus ''200 OK'', End (JStr ''Hello World!'')] \<and>
   written (after_await_min node (Returns (JStr ''Hello World!'')) fresh) =
     [WriteStatus ''200 OK'', End (JStr ''Hello World!'')] \<and>
   written (after_await_full node (Returns (JNum 7)) fresh) = [WriteStatus ''200 OK'', End (JNum 7)] \<and>
   written (after_await_min node (Returns (JNum 7)) fresh) = []"
  using string_and_number_responses [of fresh "JNum 7" node "''Hello World!''"]
  by (simp add: fresh_def)

text \<open>NaN is a number and is sent as it is, but returned it is falsy.\<close>

lemma NaN_example:
  "written (snd (send_full node JNaN fresh)) = [WriteStatus ''200 OK'', End JNaN] \<and>
   written (after_await_full node (Returns JNaN) fresh) =
     [WriteStatus ''204 No Content'', End (JStr ''204 No Content'')]"
  by (simp add: send_full_def after_await_full_def try_full_def catch_full_def
      error_message_full_def new_HTTPError_def fresh_def Let_def string_of_int_204)

lemma after_await_full_falsy:
  "\<not> truthy b \<Longrightarrow>
   after_await_full rt (Returns b) res =
     (if calledSend res then res else catch_full rt (new_HTTPError (JNum 204) (Some ''No Content'')) res)"
  by (simp add: after_await_full_def try_full_def)

lemma after_await_min_falsy: "\<not> truthy b \<Longrightarrow> after_await_min rt (Returns b) res = res"
  by (simp add: after_await_min_def try_min_def)

lemma error_message_204:
  "error_message_full rt (new_HTTPError (JNum 204) (Some ''No Content'')) = ''204 No Content''"
  by (simp add: error_message_full_def new_HTTPError_def string_of_int_204)

lemma catch_full_written:
  "written (catch_full rt error res) = written res \<or>
   written (catch_full rt error res) =
     written res @ [WriteStatus (error_message_full rt error), End (JStr (error_message_full rt error))]"
  by (simp add: catch_full_def Let_def)

text \<open>
  Claim C8. When the handler resolves with \<open>undefined\<close> or \<open>null\<close>, has not called
  \<open>response.send\<close>, and no guard flag is set, the fuller variant sets \<open>done\<close> and
  writes \<open>204 No Content\<close> as status line and body, through its \<open>catch\<close> block; the
  minimal variant leaves the response untouched.
\<close>

theorem empty_return:
  assumes "\<not> aborted res" and "\<not> done' res" and "\<not> calledNext res" and "\<not> calledSend res"
    and "b = JUndefined \<or> b = JNull"
  shows "after_await_full rt (Returns b) res =
           res\<lparr>done' := True,
               written := written res @
                 [WriteStatus ''204 No Content'', End (JStr ''204 No Content'')]\<rparr> \<and>
         after_await_min rt (Returns b) res = res"
proof -
  have "\<not> truthy b" using assms(5) by auto
  then show ?thesis using assms(1-4)
    by (simp add: after_await_full_falsy after_await_min_falsy catch_full_unguarded
        error_message_204)
qed

theorem empty_return_witness:
  "\<not> aborted fresh \<and> \<not> done' fresh \<and> \<not> calledNext fresh \<and> \<not> calledSend fresh \<and>
   written (dispatch_full node (returns JUndefined)) =
     [WriteStatus ''204 No Content'', End (JStr ''204 No Content'')] \<and>
   written (dispatch_min node (returns JUndefined)) = []"
  using empty_return [of fresh JUndefined node]
  by (simp add: returns_def dispatch_full_simple dispatch_min_simple fresh_def)

text \<open>
  Claim C10. A handler returning the empty string, the number 0, \<open>false\<close> or
  \<open>null\<close> is treated as one returning \<open>undefined\<close>: the fuller variant does exactly
  what it does for \<open>undefined\<close>, which is to write nothing or \<open>204 No Content\<close>, the
  latter whenever no flag is set; the minimal variant leaves the response untouched. So
  no such return value yields a \<open>200 OK\<close> response.
\<close>

theorem falsy_return_is_empty_return:
  assumes "b = JStr [] \<or> b = JNum 0 \<or> b = JBool False \<or> b = JNull"
  shows "after_await_full rt (Returns b) res = after_await_full rt (Returns JUndefined) res \<and>
         after_await_min rt (Returns b) res = res \<and>
         (written (after_await_full rt (Returns b) res) = written res \<or>
          written (after_await_full rt (Returns b) res) =
            written res @ [WriteStatus ''204 No Content'', End (JStr ''204 No Content'')]) \<and>
         (\<not> aborted res \<and> \<not> done' res \<and> \<not> calledNext res \<and> \<not> calledSend res \<longrightarrow>
            written (after_await_full rt (Returns b) res) =
              written res @ [WriteStatus ''204 No Content'', End (JStr ''204 No Content'')])"
proof -
  have falsy: "\<not> truthy b" using assms by auto
  have same: "after_await_full rt (Returns b) res = after_await_full rt (Returns JUndefined) res"
    using falsy by (simp add: after_await_full_falsy)
  have quiet: "after_await_min rt (Returns b) res = res"
    using falsy by (rule after_await_min_falsy)
  have either: "written (after_await_full rt (Returns b) res) = written res \<or>
      written (after_await_full rt (Returns b) res) =
        written res @ [WriteStatus ''204 No Content'', End (JStr ''204 No Content'')]"
    using catch_full_written [of rt "new_HTTPError (JNum 204) (Some ''No Content'')" res] falsy
    by (simp add: after_await_full_falsy error_message_204)
  have clean: "written (after_await_full rt (Returns b) res) =
      written res @ [WriteStatus ''204 No Content'', End (JStr ''204 No Content'')]"
    if "\<not> aborted res \<and> \<not> done' res \<and> \<not> calledNext res \<and> \<not> calledSend res"
    using that falsy
    by (simp add: after_await_full_falsy catch_full_unguarded error_message_204)
  from same quiet either clean show ?thesis by blast
qed

theorem falsy_return_is_empty_return_witness:
  "written (dispatch_full node (returns (JStr []))) =
     [WriteStatus ''204 No Content'', End (JStr ''204 No Content'')] \<and>
   written (dispatch_min node (returns (JStr []))) = []"
proof -
  have falsy: "JStr [] = JStr [] \<or> JStr [] = JNum 0 \<or> JStr [] = JBool False \<or> JStr [] = JNull"
    by simp
  have clean: "\<not> aborted fresh \<and> \<not> done' fresh \<and> \<not> calledNext fresh \<and> \<not> calledSend fresh"
    by (simp add: fresh_def)
  from falsy_return_is_empty_return [OF falsy, of node fresh] clean
  have "written (after_await_full node (Returns (JStr [])) fresh) =
      written fresh @ [WriteStatus ''204 No Content'', End (JStr ''204 No Content'')]"
    and "after_await_min node (Returns (JStr [])) fresh = fresh"
    by blast+
  then show ?thesis
    by (simp add: returns_def dispatch_full_simple dispatch_min_simple) (simp add: fresh_def)
qed

section \<open>Registration methods\<close>

text \<open>
  Claim C9. As stated for both variants, the claim fails on the minimal one: \<open>get\<close>
  returns \<open>undefined\<close>, so a call chained to it throws.
\<close>

theorem minimal_registration_returns_undefined:
  "snd (get_min ''/'' (returns (JStr ''Hello World!'')) app0) = None \<and>
   chain (get_min ''/'' (returns (JStr ''Hello World!'')) app0)
     (post_min ''/'' (returns (JStr ''Hello World!''))) = None"
  by (simp add: get_min_def chain_def)

text \<open>
  Claim C9. Each of the nine registration methods hands the route to the transport under
  its method key. In the fuller variant it returns the \<open>App\<close> object, so calls chain;
  in the minimal variant it returns \<open>undefined\<close>.
\<close>

theorem registration_returns:
  "use_full path h this = (this\<lparr>routes := routes this @ [(''any'', path, h)]\<rparr>,
                           Some (this\<lparr>routes := routes this @ [(''any'', path, h)]\<rparr>)) \<and>
   get_full path h this = (this\<lparr>routes := routes this @ [(''get'', path, h)]\<rparr>,
                           Some (this\<lparr>routes := routes this @ [(''get'', path, h)]\<rparr>)) \<and>
   post_full path h this = (this\<lparr>routes := routes this @ [(''post'', path, h)]\<rparr>,
                           Some (this\<lparr>routes := routes this @ [(''post'', path, h)]\<rparr>)) \<and>
   put_full path h this = (this\<lparr>routes := routes this @ [(''put'', path, h)]\<rparr>,
                           Some (this\<lparr>routes := routes this @ [(''put'', path, h)]\<rparr>)) \<and>
   patch_full path h this = (this\<lparr>routes := routes this @ [(''patch'', path, h)]\<rparr>,
                           Some (this\<lparr>routes := routes this @ [(''patch'', path, h)]\<rparr>)) \<and>
   delete_full path h this = (this\<lparr>routes := routes this @ [(''del'', path, h)]\<rparr>,
                           Some (this\<lparr>routes := routes this @ [(''del'', path, h)]\<rparr>)) \<and>
   options_full path h this = (this\<lparr>routes := routes this @ [(''options'', path, h)]\<rparr>,
                           Some (this\<lparr>routes := routes this @ [(''options'', path, h)]\<rparr>)) \<and>
   connect_full path h this = (this\<lparr>routes := routes this @ [(''connect'', path, h)]\<rparr>,
                           Some (this\<lparr>routes := routes this @ [(''connect'', path, h)]\<rparr>)) \<and>
   head_full path h this = (this\<lparr>routes := routes this @ [(''head'', path, h)]\<rparr>,
                           Some (this\<lparr>routes := routes this @ [(''head'', path, h)]\<rparr>)) \<and>
   use_min path h this = (this\<lparr>routes := routes this @ [(''any'', path, h)]\<rparr>, None) \<and>
   get_min path h this = (this\<lparr>routes := routes this @ [(''get'', path, h)]\<rparr>, None) \<and>
   post_min path h this = (this\<lparr>routes := routes this @ [(''post'', path, h)]\<rparr>, None) \<and>
   put_min path h this = (this\<lparr>routes := routes this @ [(''put'', path, h)]\<rparr>, None) \<and>
   patch_min path h this = (this\<lparr>routes := routes this @ [(''patch'', path, h)]\<rparr>, None) \<and>
   delete_min path h this = (this\<lparr>routes := routes this @ [(''del'', path, h)]\<rparr>, None) \<and>
   options_min path h this = (this\<lparr>routes := routes this @ [(''options'', path, h)]\<rparr>, None) \<and>
   connect_min path h this = (this\<lparr>routes := routes this @ [(''connect'', path, h)]\<rparr>, None) \<and>
   head_min path h this = (this\<lparr>routes := routes this @ [(''head'', path, h)]\<rparr>, None)"
  by (simp add: handle_full_def use_full_def get_full_def post_full_def put_full_def
      patch_full_def delete_full_def options_full_def connect_full_def head_full_def
      handle_min_def use_min_def get_min_def post_min_def put_min_def patch_min_def
      delete_min_def options_min_def connect_min_def head_min_def Let_def)

end
